theory Spec2Isabelle
  imports
    Complex_Main
    "HOL-Library.Char_ord"
    "HOL-Library.List_Lexorder"
    "HOL-Library.Option_ord"
begin

section \<open>The BigQuery views of CrossRetail\<close>

text \<open>
  The development embeds the four views of
  \<^verbatim>\<open>backend/scripts/create_bigquery_views.sql\<close>:
  \<^verbatim>\<open>latest_prices\<close>, \<^verbatim>\<open>arbitrage_opportunities\<close> (with its common table
  expression \<^verbatim>\<open>price_comparison\<close>), \<^verbatim>\<open>price_history_aggregated\<close> and
  \<^verbatim>\<open>product_brands\<close>.

  A table is the list of its rows in scan order. SQL fixes no order for the rows of a
  table, for the groups of a \<^verbatim>\<open>GROUP BY\<close>, nor among rows that compare equal under an
  \<^verbatim>\<open>ORDER BY\<close>; wherever the engine is free, the embedding follows the scan order
  (the groups come in the order of their keys, sorting is stable), so the result of a
  view on a table is one of the results that the engine may return. A nullable column
  is an \<open>option\<close>, \<open>None\<close> being \<^verbatim>\<open>NULL\<close>. Prices are exact rationals, timestamps
  are microseconds since the epoch (UTC), \<^verbatim>\<open>CURRENT_TIMESTAMP()\<close> is the parameter
  \<open>now\<close>. A query that raises yields \<open>Inl\<close> of the error. The clauses
  \<^verbatim>\<open>PARTITION BY\<close> and \<^verbatim>\<open>CLUSTER BY\<close> of the view declarations concern storage
  only and are left out.
\<close>

subsection \<open>Rows of the base table\<close>

type_synonym timestamp = int

text \<open>
  The columns of \<^verbatim>\<open>retail_intelligence.products\<close> that \<^verbatim>\<open>latest_prices\<close>
  selects; \<open>product_id\<close>, \<open>site\<close> and \<open>scraped_at\<close> are required.
\<close>

record product =
  product_id :: string
  site :: string
  url :: "string option"
  title :: "string option"
  description :: "string option"
  price :: "rat option"
  currency :: "string option"
  rating :: "rat option"
  review_count :: "int option"
  availability :: "string option"
  image_urls :: "string list"
  scraped_at :: timestamp
  brand :: "string option"
  model :: "string option"
  category :: "string option"
  sku :: "string option"
  gcs_path :: "string option"

text \<open>A row of \<^verbatim>\<open>latest_prices\<close>: the selected columns and the row number \<^verbatim>\<open>rn\<close>.\<close>

record latest_price = product +
  rn :: nat

subsection \<open>SQL operators\<close>

datatype sql_error = Division_by_zero | Array_index_out_of_bounds

text \<open>\<^verbatim>\<open>TIMESTAMP_SUB(t, INTERVAL n DAY)\<close>: a day is 24 hours.\<close>

definition timestamp_sub_day :: "timestamp \<Rightarrow> int \<Rightarrow> timestamp" where
  "timestamp_sub_day t n = t - n * 86400000000"

text \<open>\<^verbatim>\<open>DATE(t)\<close> in UTC, as the number of the day since the epoch.\<close>

definition date_of :: "timestamp \<Rightarrow> int" where
  "date_of t = t div 86400000000"

text \<open>\<^verbatim>\<open>ORDER BY f\<close> and \<^verbatim>\<open>ORDER BY f DESC\<close>, both stable.\<close>

definition order_by :: "('a \<Rightarrow> 'k::linorder) \<Rightarrow> 'a list \<Rightarrow> 'a list" where
  "order_by f rows = sort_key f rows"

definition order_by_desc :: "('a \<Rightarrow> 'k::linorder) \<Rightarrow> 'a list \<Rightarrow> 'a list" where
  "order_by_desc f rows = rev (sort_key f (rev rows))"

text \<open>\<^verbatim>\<open>PARTITION BY\<close> and \<^verbatim>\<open>GROUP BY\<close>: each key with the rows that carry it.\<close>

definition partition_by :: "('a \<Rightarrow> 'k) \<Rightarrow> 'a list \<Rightarrow> ('k \<times> 'a list) list" where
  "partition_by f rows = map (\<lambda>k. (k, filter (\<lambda>r. f r = k) rows)) (remdups (map f rows))"

text \<open>\<^verbatim>\<open>ROW_NUMBER()\<close> over an ordered partition: 1, 2, 3, ...\<close>

fun number_from :: "nat \<Rightarrow> product list \<Rightarrow> latest_price list" where
  "number_from n [] = []"
| "number_from n (r # rs) = product.extend r (latest_price.fields n) # number_from (Suc n) rs"

definition row_number :: "product list \<Rightarrow> latest_price list" where
  "row_number part = number_from 1 part"

subsection \<open>The view \<^verbatim>\<open>latest_prices\<close>\<close>

text \<open>
  \<^verbatim>\<open>
  SELECT product_id, site, ..., gcs_path,
    ROW_NUMBER() OVER (PARTITION BY product_id, site ORDER BY scraped_at DESC) as rn
  FROM retail_intelligence.products
  WHERE scraped_at >= TIMESTAMP_SUB(CURRENT_TIMESTAMP(), INTERVAL 30 DAY)
  QUALIFY rn = 1
  \<close>
  The \<^verbatim>\<open>WHERE\<close> clause is applied before the window function, \<^verbatim>\<open>QUALIFY\<close> after it.
\<close>

definition in_window :: "timestamp \<Rightarrow> product \<Rightarrow> bool" where
  "in_window now r = (timestamp_sub_day now 30 \<le> scraped_at r)"

definition latest_prices :: "timestamp \<Rightarrow> product list \<Rightarrow> latest_price list" where
  "latest_prices now products =
     (let rows = filter (in_window now) products;
          numbered = concat (map (\<lambda>(k, part). row_number (order_by_desc scraped_at part))
                                 (partition_by (\<lambda>r. (product_id r, site r)) rows))
      in filter (\<lambda>r. rn r = 1) numbered)"

subsection \<open>Aggregates and nullable arithmetic\<close>

text \<open>Aggregate functions skip \<^verbatim>\<open>NULL\<close> and yield \<^verbatim>\<open>NULL\<close> when nothing is left.\<close>

definition non_null :: "'a option list \<Rightarrow> 'a list" where
  "non_null vs = concat (map (\<lambda>v. case v of None \<Rightarrow> [] | Some x \<Rightarrow> [x]) vs)"

definition sql_min :: "('a::linorder) option list \<Rightarrow> 'a option" where
  "sql_min vs = (case non_null vs of [] \<Rightarrow> None | x # xs \<Rightarrow> Some (Min (set (x # xs))))"

definition sql_max :: "('a::linorder) option list \<Rightarrow> 'a option" where
  "sql_max vs = (case non_null vs of [] \<Rightarrow> None | x # xs \<Rightarrow> Some (Max (set (x # xs))))"

definition sql_avg :: "rat option list \<Rightarrow> rat option" where
  "sql_avg vs =
     (case non_null vs of [] \<Rightarrow> None
      | x # xs \<Rightarrow> Some (sum_list (x # xs) / of_nat (length (x # xs))))"

text \<open>\<^verbatim>\<open>COUNT(DISTINCT c)\<close> for a column \<open>c\<close> without \<^verbatim>\<open>NULL\<close>.\<close>

definition count_distinct :: "'a list \<Rightarrow> nat" where
  "count_distinct vs = length (remdups vs)"

definition sql_sub :: "rat option \<Rightarrow> rat option \<Rightarrow> rat option" where
  "sql_sub x y = (case (x, y) of (Some a, Some b) \<Rightarrow> Some (a - b) | _ \<Rightarrow> None)"

definition sql_mul :: "rat option \<Rightarrow> rat option \<Rightarrow> rat option" where
  "sql_mul x y = (case (x, y) of (Some a, Some b) \<Rightarrow> Some (a * b) | _ \<Rightarrow> None)"

text \<open>The operator \<^verbatim>\<open>/\<close> raises on a zero divisor.\<close>

definition sql_div :: "rat option \<Rightarrow> rat option \<Rightarrow> sql_error + rat option" where
  "sql_div x y =
     (case (x, y) of
        (Some a, Some b) \<Rightarrow> if b = 0 then Inl Division_by_zero else Inr (Some (a / b))
      | _ \<Rightarrow> Inr None)"

text \<open>Three-valued comparison and conjunction; \<open>None\<close> is \<^verbatim>\<open>NULL\<close>.\<close>

definition sql_ge :: "rat option \<Rightarrow> rat option \<Rightarrow> bool option" where
  "sql_ge x y = (case (x, y) of (Some a, Some b) \<Rightarrow> Some (b \<le> a) | _ \<Rightarrow> None)"

definition sql_and :: "bool option \<Rightarrow> bool option \<Rightarrow> bool option" where
  "sql_and p q =
     (if p = Some False \<or> q = Some False then Some False
      else if p = Some True \<and> q = Some True then Some True
      else None)"

text \<open>\<^verbatim>\<open>a[OFFSET(0)]\<close> raises on an empty array.\<close>

definition array_offset_0 :: "'a list \<Rightarrow> sql_error + 'a" where
  "array_offset_0 a = (case a of [] \<Rightarrow> Inl Array_index_out_of_bounds | x # _ \<Rightarrow> Inr x)"

text \<open>The rows of a query whose expressions may raise: the first error, or all the rows.\<close>

fun collect :: "(sql_error + 'a) list \<Rightarrow> sql_error + 'a list" where
  "collect [] = Inr []"
| "collect (x # xs) =
     (case x of
        Inl e \<Rightarrow> Inl e
      | Inr v \<Rightarrow> (case collect xs of Inl e \<Rightarrow> Inl e | Inr vs \<Rightarrow> Inr (v # vs)))"

subsection \<open>The view \<^verbatim>\<open>arbitrage_opportunities\<close>\<close>

record arbitrage_opportunity =
  opp_product_id :: string
  opp_title :: "string option"
  min_price :: "rat option"
  max_price :: "rat option"
  price_diff :: "rat option"
  profit_margin_pct :: "rat option"
  retailer_count :: nat
  cheapest_retailer :: string
  expensive_retailer :: string

text \<open>
  The select list of \<^verbatim>\<open>price_comparison\<close> on one group:
  \<^verbatim>\<open>
  product_id, title,
  MIN(price) as min_price, MAX(price) as max_price,
  MAX(price) - MIN(price) as price_diff,
  (MAX(price) - MIN(price)) / MIN(price) * 100 as profit_margin_pct,
  COUNT(DISTINCT site) as retailer_count,
  ARRAY_AGG(site ORDER BY price LIMIT 1)[OFFSET(0)] as cheapest_retailer,
  ARRAY_AGG(site ORDER BY price DESC LIMIT 1)[OFFSET(0)] as expensive_retailer
  \<close>
\<close>

definition price_comparison_row ::
  "string \<times> string option \<Rightarrow> latest_price list \<Rightarrow> sql_error + arbitrage_opportunity" where
  "price_comparison_row k g =
     (let mn = sql_min (map price g); mx = sql_max (map price g) in
      case sql_div (sql_sub mx mn) mn of
        Inl e \<Rightarrow> Inl e
      | Inr q \<Rightarrow>
          (case array_offset_0 (take 1 (map site (order_by price g))) of
             Inl e \<Rightarrow> Inl e
           | Inr cheapest \<Rightarrow>
               (case array_offset_0 (take 1 (map site (order_by_desc price g))) of
                  Inl e \<Rightarrow> Inl e
                | Inr expensive \<Rightarrow>
                    Inr \<lparr>opp_product_id = fst k, opp_title = snd k,
                         min_price = mn, max_price = mx,
                         price_diff = sql_sub mx mn,
                         profit_margin_pct = sql_mul q (Some 100),
                         retailer_count = count_distinct (map site g),
                         cheapest_retailer = cheapest,
                         expensive_retailer = expensive\<rparr>)))"

text \<open>
  \<^verbatim>\<open>SELECT ... FROM latest WHERE price IS NOT NULL GROUP BY product_id, title\<close>:
  the groups with their select list, before \<^verbatim>\<open>HAVING\<close>. The select list is evaluated
  on every group, since \<^verbatim>\<open>HAVING\<close> reads its aliases; an error in one group fails the
  query.
\<close>

definition price_comparison_groups ::
  "latest_price list \<Rightarrow> sql_error + arbitrage_opportunity list" where
  "price_comparison_groups latest =
     (let rows = filter (\<lambda>r. price r \<noteq> None) latest
      in collect (map (\<lambda>(k, g). price_comparison_row k g)
                      (partition_by (\<lambda>r. (product_id r, title r)) rows)))"

text \<open>
  \<^verbatim>\<open>HAVING profit_margin_pct >= 5 AND price_diff >= 1.0\<close>, the two constants taken as
  the parameters \<open>min_margin_pct\<close> and \<open>min_price_diff\<close>; a group is kept when the
  condition is true (neither false nor \<^verbatim>\<open>NULL\<close>).
\<close>

definition having_clause :: "rat \<Rightarrow> rat \<Rightarrow> arbitrage_opportunity \<Rightarrow> bool" where
  "having_clause min_margin_pct min_price_diff opp =
     (sql_and (sql_ge (profit_margin_pct opp) (Some min_margin_pct))
              (sql_ge (price_diff opp) (Some min_price_diff)) = Some True)"

definition price_comparison ::
  "rat \<Rightarrow> rat \<Rightarrow> latest_price list \<Rightarrow> sql_error + arbitrage_opportunity list" where
  "price_comparison min_margin_pct min_price_diff latest =
     (case price_comparison_groups latest of
        Inl e \<Rightarrow> Inl e
      | Inr groups \<Rightarrow> Inr (filter (having_clause min_margin_pct min_price_diff) groups))"

text \<open>\<^verbatim>\<open>SELECT * FROM price_comparison ORDER BY profit_margin_pct DESC\<close>\<close>

definition arbitrage_opportunities_with ::
  "rat \<Rightarrow> rat \<Rightarrow> latest_price list \<Rightarrow> sql_error + arbitrage_opportunity list" where
  "arbitrage_opportunities_with min_margin_pct min_price_diff latest =
     (case price_comparison min_margin_pct min_price_diff latest of
        Inl e \<Rightarrow> Inl e
      | Inr rows \<Rightarrow> Inr (order_by_desc profit_margin_pct rows))"

text \<open>The view as it is written: 5 percent and 1.0, over \<^verbatim>\<open>latest_prices\<close>.\<close>

definition arbitrage_opportunities ::
  "timestamp \<Rightarrow> product list \<Rightarrow> sql_error + arbitrage_opportunity list" where
  "arbitrage_opportunities now products =
     arbitrage_opportunities_with 5 1 (latest_prices now products)"

subsection \<open>The view \<^verbatim>\<open>price_history_aggregated\<close>\<close>

record price_history_point =
  h_product_id :: string
  date :: int
  h_site :: string
  avg_price :: "rat option"
  h_min_price :: "rat option"
  h_max_price :: "rat option"
  h_currency :: "string option"
  data_points :: nat

text \<open>
  \<^verbatim>\<open>
  SELECT product_id, DATE(scraped_at) as date, site,
    AVG(price) as avg_price, MIN(price) as min_price, MAX(price) as max_price,
    MAX(currency) as currency, COUNT(*) as data_points
  FROM retail_intelligence.products
  WHERE price IS NOT NULL
    AND scraped_at >= TIMESTAMP_SUB(CURRENT_TIMESTAMP(), INTERVAL 90 DAY)
  GROUP BY product_id, DATE(scraped_at), site
  \<close>
\<close>

definition price_history_aggregated :: "timestamp \<Rightarrow> product list \<Rightarrow> price_history_point list" where
  "price_history_aggregated now products =
     (let rows = filter (\<lambda>r. price r \<noteq> None \<and> timestamp_sub_day now 90 \<le> scraped_at r) products
      in map (\<lambda>((pid, d, s), g).
                \<lparr>h_product_id = pid, date = d, h_site = s,
                 avg_price = sql_avg (map price g),
                 h_min_price = sql_min (map price g),
                 h_max_price = sql_max (map price g),
                 h_currency = sql_max (map currency g),
                 data_points = length g\<rparr>)
             (partition_by (\<lambda>r. (product_id r, date_of (scraped_at r), site r)) rows))"

subsection \<open>The view \<^verbatim>\<open>product_brands\<close>\<close>

record product_brand =
  b_brand :: "string option"
  product_count :: nat
  b_retailer_count :: nat
  b_avg_price :: "rat option"
  b_min_price :: "rat option"
  b_max_price :: "rat option"

text \<open>
  \<^verbatim>\<open>
  SELECT brand, COUNT(DISTINCT product_id) as product_count,
    COUNT(DISTINCT site) as retailer_count,
    AVG(price) as avg_price, MIN(price) as min_price, MAX(price) as max_price
  FROM retail_intelligence.latest_prices
  WHERE brand IS NOT NULL AND brand != ''
  GROUP BY brand
  ORDER BY product_count DESC
  \<close>
\<close>

definition product_brands :: "latest_price list \<Rightarrow> product_brand list" where
  "product_brands latest =
     (let rows = filter (\<lambda>r. brand r \<noteq> None \<and> brand r \<noteq> Some '''') latest
      in order_by_desc product_count
           (map (\<lambda>(b, g).
                   \<lparr>b_brand = b,
                    product_count = count_distinct (map product_id g),
                    b_retailer_count = count_distinct (map site g),
                    b_avg_price = sql_avg (map price g),
                    b_min_price = sql_min (map price g),
                    b_max_price = sql_max (map price g)\<rparr>)
                (partition_by brand rows)))"

subsection \<open>Example rows\<close>

text \<open>An observation with the columns the views aggregate; the other columns are \<^verbatim>\<open>NULL\<close>.\<close>

definition observation ::
  "string \<Rightarrow> string \<Rightarrow> string option \<Rightarrow> rat option \<Rightarrow> string option \<Rightarrow> timestamp
     \<Rightarrow> string option \<Rightarrow> product" where
  "observation pid s t p c ts b =
     \<lparr>product_id = pid, site = s, url = None, title = t, description = None, price = p,
      currency = c, rating = None, review_count = None, availability = None,
      image_urls = [], scraped_at = ts, brand = b, model = None, category = None,
      sku = None, gcs_path = None\<rparr>"

text \<open>A row of \<^verbatim>\<open>latest_prices\<close> built from an observation.\<close>

definition latest_row :: "product \<Rightarrow> latest_price" where
  "latest_row r = product.extend r (latest_price.fields 1)"

text \<open>
  Four observations of a clock at 1700000000 s: product P1 at amazon 40 days, 2 days and
  1 day before, and at walmart 1 day before.
\<close>

definition ex_now :: timestamp where
  "ex_now = 1700000000000000"

definition ex_products :: "product list" where
  "ex_products =
     [observation ''P1'' ''amazon'' (Some ''Widget'') (Some 90) (Some ''USD'') 1696544000000000 None,
      observation ''P1'' ''amazon'' (Some ''Widget'') (Some 95) (Some ''USD'') 1699827200000000 None,
      observation ''P1'' ''amazon'' (Some ''Widget'') (Some 100) (Some ''USD'') 1699913600000000 None,
      observation ''P1'' ''walmart'' (Some ''Widget'') (Some 80) (Some ''USD'') 1699913600000000 None]"

text \<open>A product with a price of zero at one of its two retailers.\<close>

definition ex_zero_price :: "product list" where
  "ex_zero_price =
     [observation ''P2'' ''amazon'' (Some ''Gadget'') (Some 0) (Some ''USD'') 1699913600000000 None,
      observation ''P2'' ''walmart'' (Some ''Gadget'') (Some 10) (Some ''USD'') 1699913600000000 None]"

text \<open>Two products of equal margin (100 percent) and different price spread.\<close>

definition ex_tied_margins :: "product list" where
  "ex_tied_margins =
     [observation ''P1'' ''amazon'' (Some ''Widget'') (Some 10) (Some ''USD'') 1699913600000000 None,
      observation ''P1'' ''walmart'' (Some ''Widget'') (Some 20) (Some ''USD'') 1699913600000000 None,
      observation ''P2'' ''amazon'' (Some ''Gadget'') (Some 100) (Some ''USD'') 1699913600000000 None,
      observation ''P2'' ''walmart'' (Some ''Gadget'') (Some 200) (Some ''USD'') 1699913600000000 None]"

text \<open>Two products of different margin: 25 and 100 percent.\<close>

definition ex_ranked :: "product list" where
  "ex_ranked =
     [observation ''P1'' ''amazon'' (Some ''Widget'') (Some 100) (Some ''USD'') 1699913600000000 None,
      observation ''P1'' ''walmart'' (Some ''Widget'') (Some 80) (Some ''USD'') 1699913600000000 None,
      observation ''P2'' ''amazon'' (Some ''Gadget'') (Some 100) (Some ''USD'') 1699913600000000 None,
      observation ''P2'' ''walmart'' (Some ''Gadget'') (Some 200) (Some ''USD'') 1699913600000000 None]"

text \<open>One product, two retailers at the lowest price and two at the highest.\<close>

definition ex_tied_prices :: "product list" where
  "ex_tied_prices =
     [observation ''P1'' ''walmart'' (Some ''Widget'') (Some 10) (Some ''USD'') 1699913600000000 None,
      observation ''P1'' ''amazon'' (Some ''Widget'') (Some 10) (Some ''USD'') 1699913600000000 None,
      observation ''P1'' ''target'' (Some ''Widget'') (Some 20) (Some ''USD'') 1699913600000000 None,
      observation ''P1'' ''kohls'' (Some ''Widget'') (Some 20) (Some ''USD'') 1699913600000000 None]"

text \<open>Retailers that report different titles for one product.\<close>

definition ex_titles :: "product list" where
  "ex_titles =
     [observation ''P1'' ''amazon'' (Some ''Widget'') (Some 100) (Some ''USD'') 1699913600000000 None,
      observation ''P1'' ''walmart'' (Some ''Widget'') (Some 80) (Some ''USD'') 1699913600000000 None,
      observation ''P1'' ''kohls'' (Some ''Widget Deluxe'') (Some 50) (Some ''USD'') 1699913600000000 None,
      observation ''P3'' ''amazon'' (Some ''Lamp'') (Some 10) (Some ''USD'') 1699913600000000 None,
      observation ''P3'' ''walmart'' (Some ''Lamp, white'') (Some 20) (Some ''USD'') 1699913600000000 None]"



text \<open>The opportunity of product P1 between walmart (80) and amazon (100).\<close>

definition ex_opportunity :: arbitrage_opportunity where
  "ex_opportunity =
     \<lparr>opp_product_id = ''P1'', opp_title = Some ''Widget'', min_price = Some 80,
      max_price = Some 100, price_diff = Some 20, profit_margin_pct = Some 25,
      retailer_count = 2, cheapest_retailer = ''walmart'', expensive_retailer = ''amazon''\<rparr>"

text \<open>Two observations of one product at one retailer on one day, USD first and CAD later.\<close>

definition ex_currencies :: "product list" where
  "ex_currencies =
     [observation ''P1'' ''amazon'' (Some ''Widget'') (Some 100) (Some ''USD'') 1699913600000000 None,
      observation ''P1'' ''amazon'' (Some ''Widget'') (Some 101) (Some ''CAD'') 1699917200000000 None]"

text \<open>
  Brand Acme with three rows over two products and two sites, a row without brand and a
  row with an empty brand.
\<close>

definition ex_brands :: "product list" where
  "ex_brands =
     [observation ''P1'' ''amazon'' (Some ''Widget'') (Some 100) (Some ''USD'') 1699913600000000 (Some ''Acme''),
      observation ''P1'' ''walmart'' (Some ''Widget'') (Some 80) (Some ''USD'') 1699913600000000 (Some ''Acme''),
      observation ''P2'' ''amazon'' (Some ''Gadget'') (Some 60) (Some ''USD'') 1699913600000000 (Some ''Acme''),
      observation ''P3'' ''kohls'' (Some ''Lamp'') (Some 10) (Some ''USD'') 1699913600000000 None,
      observation ''P4'' ''kmart'' (Some ''Desk'') (Some 20) (Some ''USD'') 1699913600000000 (Some '''')]"

section \<open>Properties of \<^verbatim>\<open>latest_prices\<close>\<close>

subsection \<open>Ordering, numbering and partitions\<close>

lemma set_order_by_desc: "set (order_by_desc f xs) = set xs"
  by (simp add: order_by_desc_def)

lemma order_by_desc_Nil: "order_by_desc f xs = [] \<longleftrightarrow> xs = []"
  by (metis set_order_by_desc set_empty)

lemma sorted_order_by_desc: "sorted_wrt (\<lambda>a b. f b \<le> f a) (order_by_desc f xs)"
proof -
  have "sorted (map f (sort_key f (rev xs)))" by simp
  then have "sorted_wrt (\<lambda>a b. f a \<le> f b) (sort_key f (rev xs))"
    by (simp add: sorted_map)
  then show ?thesis
    by (simp add: order_by_desc_def sorted_wrt_rev)
qed

lemma hd_order_by_desc_in: "xs \<noteq> [] \<Longrightarrow> hd (order_by_desc f xs) \<in> set xs"
  by (metis hd_in_set order_by_desc_Nil set_order_by_desc)

lemma hd_order_by_desc_max:
  assumes "x \<in> set xs"
  shows "f x \<le> f (hd (order_by_desc f xs))"
proof -
  from assms have "x \<in> set (order_by_desc f xs)" by (simp add: set_order_by_desc)
  moreover obtain y ys where e: "order_by_desc f xs = y # ys"
    using assms by (cases "order_by_desc f xs") (auto simp: order_by_desc_Nil)
  moreover have "sorted_wrt (\<lambda>a b. f b \<le> f a) (y # ys)"
    using sorted_order_by_desc [of f xs] e by simp
  ultimately show ?thesis by auto
qed

lemma number_from_rn_ge: "l \<in> set (number_from n rs) \<Longrightarrow> n \<le> rn l"
  by (induction rs arbitrary: n) (auto simp: product.extend_def latest_price.fields_def dest: Suc_leD)

lemma qualify_number_from_Suc: "filter (\<lambda>r. rn r = Suc 0) (number_from (Suc (Suc n)) rs) = []"
  by (auto simp: filter_empty_conv dest: number_from_rn_ge)

lemma qualify_row_number:
  "filter (\<lambda>r. rn r = Suc 0) (row_number part) =
     (case part of [] \<Rightarrow> [] | r # _ \<Rightarrow> [product.extend r (latest_price.fields (Suc 0))])"
proof (cases part)
  case Nil
  then show ?thesis by (simp add: row_number_def)
next
  case (Cons r rs)
  have "filter (\<lambda>r. rn r = Suc 0) (number_from (Suc (Suc 0)) rs) = []"
    by (rule qualify_number_from_Suc)
  then show ?thesis using Cons
    by (simp add: row_number_def product.extend_def latest_price.fields_def)
qed

lemma partition_by_keys: "map fst (partition_by f rows) = remdups (map f rows)"
  by (simp add: partition_by_def comp_def)

lemma qualify_top:
  assumes "part \<noteq> []"
  shows "filter (\<lambda>r. rn r = Suc 0) (row_number (order_by_desc f part)) =
           [product.extend (hd (order_by_desc f part)) (latest_price.fields (Suc 0))]"
proof -
  from assms have "order_by_desc f part \<noteq> []" by (simp add: order_by_desc_Nil)
  then show ?thesis
    by (cases "order_by_desc f part") (simp_all add: qualify_row_number)
qed

lemma concat_map_singleton: "(\<forall>k\<in>set ks. F k = [G k]) \<Longrightarrow> concat (map F ks) = map G ks"
  by (induction ks) simp_all

lemma qualify_partitions:
  "filter (\<lambda>r. rn r = Suc 0)
      (concat (map (\<lambda>(k, part). row_number (order_by_desc scraped_at part)) (partition_by key rows))) =
   map (\<lambda>k. product.extend (hd (order_by_desc scraped_at (filter (\<lambda>r. key r = k) rows)))
               (latest_price.fields (Suc 0)))
       (remdups (map key rows))"
proof -
  have "filter (\<lambda>r. rn r = Suc 0)
          (concat (map (\<lambda>(k, part). row_number (order_by_desc scraped_at part)) (partition_by key rows))) =
        concat (map (\<lambda>k. filter (\<lambda>r. rn r = Suc 0)
                            (row_number (order_by_desc scraped_at (filter (\<lambda>r. key r = k) rows))))
                    (remdups (map key rows)))"
    by (simp add: partition_by_def filter_concat comp_def)
  also have "\<dots> = map (\<lambda>k. product.extend (hd (order_by_desc scraped_at (filter (\<lambda>r. key r = k) rows)))
               (latest_price.fields (Suc 0))) (remdups (map key rows))"
  proof (rule concat_map_singleton, rule ballI)
    fix k assume "k \<in> set (remdups (map key rows))"
    then have "filter (\<lambda>r. key r = k) rows \<noteq> []"
      by (auto simp: filter_empty_conv)
    then show "filter (\<lambda>r. rn r = Suc 0)
                 (row_number (order_by_desc scraped_at (filter (\<lambda>r. key r = k) rows))) =
               [product.extend (hd (order_by_desc scraped_at (filter (\<lambda>r. key r = k) rows)))
                  (latest_price.fields (Suc 0))]"
      by (rule qualify_top)
  qed
  finally show ?thesis .
qed


lemma latest_prices_eq:
  "latest_prices now products =
     map (\<lambda>k. product.extend
                 (hd (order_by_desc scraped_at
                        (filter (\<lambda>r. (product_id r, site r) = k) (filter (in_window now) products))))
                 (latest_price.fields (Suc 0)))
         (remdups (map (\<lambda>r. (product_id r, site r)) (filter (in_window now) products)))"
  unfolding latest_prices_def Let_def One_nat_def
  by (rule qualify_partitions)


lemma top_of_group:
  assumes "k \<in> set (map key rows)"
  shows "hd (order_by_desc f (filter (\<lambda>r. key r = k) rows)) \<in> set rows"
    and "key (hd (order_by_desc f (filter (\<lambda>r. key r = k) rows))) = k"
    and "r \<in> set rows \<Longrightarrow> key r = k \<Longrightarrow> f r \<le> f (hd (order_by_desc f (filter (\<lambda>r. key r = k) rows)))"
proof -
  let ?g = "filter (\<lambda>r. key r = k) rows"
  from assms have "?g \<noteq> []" by (auto simp: filter_empty_conv)
  then have "hd (order_by_desc f ?g) \<in> set ?g" by (rule hd_order_by_desc_in)
  then show "hd (order_by_desc f ?g) \<in> set rows" and "key (hd (order_by_desc f ?g)) = k"
    by simp_all
  show "f r \<le> f (hd (order_by_desc f ?g))" if "r \<in> set rows" "key r = k"
    using that by (intro hd_order_by_desc_max) simp
qed

lemma latest_prices_keys:
  "map (\<lambda>l. (product_id l, site l)) (latest_prices now products) =
     remdups (map (\<lambda>r. (product_id r, site r)) (filter (in_window now) products))"
proof -
  let ?key = "\<lambda>r::product. (product_id r, site r)"
  let ?rows = "filter (in_window now) products"
  have "map (\<lambda>l. (product_id l, site l)) (latest_prices now products) =
        map (\<lambda>k. ?key (hd (order_by_desc scraped_at (filter (\<lambda>r. ?key r = k) ?rows))))
            (remdups (map ?key ?rows))"
    by (simp add: latest_prices_eq comp_def product.extend_def)
  also have "\<dots> = map (\<lambda>k. k) (remdups (map ?key ?rows))"
  proof (rule map_cong [OF refl])
    fix k assume "k \<in> set (remdups (map ?key ?rows))"
    then have "k \<in> set (map ?key ?rows)" by simp
    then show "?key (hd (order_by_desc scraped_at (filter (\<lambda>r. ?key r = k) ?rows))) = k"
      by (rule top_of_group(2))
  qed
  finally show ?thesis by simp
qed

lemma latest_prices_distinct:
  "distinct (map (\<lambda>l. (product_id l, site l)) (latest_prices now products))"
  by (simp add: latest_prices_keys)

lemma latest_prices_row:
  assumes "l \<in> set (latest_prices now products)"
  shows "product.truncate l \<in> set products"
    and "in_window now (product.truncate l)"
    and "rn l = 1"
    and "r \<in> set products \<Longrightarrow> in_window now r \<Longrightarrow> product_id r = product_id l \<Longrightarrow> site r = site l
           \<Longrightarrow> scraped_at r \<le> scraped_at l"
proof -
  let ?key = "\<lambda>r::product. (product_id r, site r)"
  let ?rows = "filter (in_window now) products"
  from assms obtain k where k: "k \<in> set (map ?key ?rows)"
    and l: "l = product.extend (hd (order_by_desc scraped_at (filter (\<lambda>r. ?key r = k) ?rows)))
                  (latest_price.fields (Suc 0))"
    unfolding latest_prices_eq by auto
  let ?top = "hd (order_by_desc scraped_at (filter (\<lambda>r. ?key r = k) ?rows))"
  have t: "product.truncate l = ?top"
    by (simp add: l product.extend_def product.truncate_def)
  have top: "?top \<in> set ?rows" and key: "?key ?top = k"
    using k by (rule top_of_group)+
  from top show "product.truncate l \<in> set products" and "in_window now (product.truncate l)"
    by (simp_all add: t)
  show "rn l = 1"
    by (simp add: l product.extend_def latest_price.fields_def)
  have sel: "product_id l = product_id ?top" "site l = site ?top" "scraped_at l = scraped_at ?top"
    by (simp_all add: l product.extend_def)
  show "scraped_at r \<le> scraped_at l"
    if "r \<in> set products" "in_window now r" "product_id r = product_id l" "site r = site l"
  proof -
    from that have "r \<in> set ?rows" "?key r = k"
      using key by (simp_all add: sel)
    then have "scraped_at r \<le> scraped_at ?top"
      by (rule top_of_group(3) [OF k])
    then show ?thesis by (simp add: sel)
  qed
qed

text \<open>
  Claim C1. Every row of the latest-price view is an observation of the table whose
  \<open>scraped_at\<close> lies within the 30 days before \<open>now\<close> and is the greatest among the
  observations of its \<open>(product_id, site)\<close> pair within that window; the view has one
  row for each pair that has an observation in the window, and none for an older
  observation.
\<close>

theorem latest_prices_correct:
  "(\<forall>l \<in> set (latest_prices now products).
      product.truncate l \<in> set products \<and>
      timestamp_sub_day now 30 \<le> scraped_at l \<and>
      (\<forall>r \<in> set products.
         product_id r = product_id l \<and> site r = site l \<and> timestamp_sub_day now 30 \<le> scraped_at r
           \<longrightarrow> scraped_at r \<le> scraped_at l)) \<and>
   distinct (map (\<lambda>l. (product_id l, site l)) (latest_prices now products)) \<and>
   (\<forall>r \<in> set products. timestamp_sub_day now 30 \<le> scraped_at r \<longrightarrow>
      (\<exists>l \<in> set (latest_prices now products). product_id l = product_id r \<and> site l = site r))"
proof (intro conjI ballI impI)
  fix l assume l: "l \<in> set (latest_prices now products)"
  show "product.truncate l \<in> set products" using l by (rule latest_prices_row)
  have "in_window now (product.truncate l)" using l by (rule latest_prices_row)
  then show "timestamp_sub_day now 30 \<le> scraped_at l"
    by (simp add: in_window_def product.truncate_def)
  fix r assume "r \<in> set products"
    and "product_id r = product_id l \<and> site r = site l \<and> timestamp_sub_day now 30 \<le> scraped_at r"
  then show "scraped_at r \<le> scraped_at l"
    using latest_prices_row(4) [OF l, of r] by (simp add: in_window_def)
next
  show "distinct (map (\<lambda>l. (product_id l, site l)) (latest_prices now products))"
    by (rule latest_prices_distinct)
next
  fix r assume r: "r \<in> set products" "timestamp_sub_day now 30 \<le> scraped_at r"
  then have "(product_id r, site r) \<in> set (remdups (map (\<lambda>r. (product_id r, site r)) (filter (in_window now) products)))"
    by (auto simp: in_window_def)
  then have "(product_id r, site r) \<in> set (map (\<lambda>l. (product_id l, site l)) (latest_prices now products))"
    by (simp only: latest_prices_keys)
  then show "\<exists>l \<in> set (latest_prices now products). product_id l = product_id r \<and> site l = site r"
    by auto
qed

theorem latest_prices_correct_witness:
  "latest_prices ex_now ex_products = [latest_row (ex_products ! 2), latest_row (ex_products ! 3)] \<and>
   product.truncate (latest_row (ex_products ! 2)) \<in> set ex_products \<and>
   timestamp_sub_day ex_now 30 \<le> scraped_at (latest_row (ex_products ! 2)) \<and>
   scraped_at (ex_products ! 1) \<le> scraped_at (latest_row (ex_products ! 2)) \<and>
   \<not> timestamp_sub_day ex_now 30 \<le> scraped_at (ex_products ! 0)"
proof -
  have e: "latest_prices ex_now ex_products = [latest_row (ex_products ! 2), latest_row (ex_products ! 3)]"
    by (simp add: latest_prices_def in_window_def timestamp_sub_day_def partition_by_def
        order_by_desc_def row_number_def observation_def latest_row_def product.extend_def
        latest_price.fields_def ex_now_def ex_products_def)
  have m: "latest_row (ex_products ! 2) \<in> set (latest_prices ex_now ex_products)"
    by (simp add: e)
  have r: "ex_products ! 1 \<in> set ex_products"
    by (simp add: ex_products_def)
  have k: "product_id (ex_products ! 1) = product_id (latest_row (ex_products ! 2)) \<and>
           site (ex_products ! 1) = site (latest_row (ex_products ! 2)) \<and>
           timestamp_sub_day ex_now 30 \<le> scraped_at (ex_products ! 1)"
    by (simp add: ex_products_def ex_now_def observation_def latest_row_def product.extend_def
        timestamp_sub_day_def)
  have o: "\<not> timestamp_sub_day ex_now 30 \<le> scraped_at (ex_products ! 0)"
    by (simp add: ex_products_def ex_now_def observation_def timestamp_sub_day_def)
  from latest_prices_correct [of ex_now ex_products] m r k
  have "product.truncate (latest_row (ex_products ! 2)) \<in> set ex_products \<and>
        timestamp_sub_day ex_now 30 \<le> scraped_at (latest_row (ex_products ! 2)) \<and>
        scraped_at (ex_products ! 1) \<le> scraped_at (latest_row (ex_products ! 2))"
    by blast
  with e o show ?thesis by blast
qed

section \<open>Properties of \<^verbatim>\<open>arbitrage_opportunities\<close>\<close>

subsection \<open>Evaluation, aggregates and groups\<close>

lemmas view_defs =
  latest_prices_def in_window_def timestamp_sub_day_def date_of_def partition_by_def
  order_by_desc_def order_by_def row_number_def observation_def latest_row_def
  product.extend_def latest_price.fields_def price_comparison_groups_def
  price_comparison_row_def price_comparison_def arbitrage_opportunities_with_def
  arbitrage_opportunities_def having_clause_def sql_min_def sql_max_def sql_avg_def
  sql_sub_def sql_mul_def sql_div_def sql_ge_def sql_and_def non_null_def count_distinct_def
  array_offset_0_def price_history_aggregated_def product_brands_def Let_def ex_now_def

lemma collect_map_Inr: "collect (map Inr vs) = Inr vs"
  by (induction vs) simp_all

lemma collect_Inr_D: "collect xs = Inr vs \<Longrightarrow> xs = map Inr vs"
  by (induction xs arbitrary: vs) (auto split: sum.splits)

lemma collect_Inr_iff: "collect xs = Inr vs \<longleftrightarrow> xs = map Inr vs"
  using collect_Inr_D collect_map_Inr by blast

lemma non_null_set: "set (non_null vs) = {x. Some x \<in> set vs}"
  by (induction vs) (auto simp: non_null_def split: option.splits)

lemma sql_min_set: "sql_min vs = (if set (non_null vs) = {} then None else Some (Min (set (non_null vs))))"
  by (cases "non_null vs") (simp_all add: sql_min_def)

lemma sql_max_set: "sql_max vs = (if set (non_null vs) = {} then None else Some (Max (set (non_null vs))))"
  by (cases "non_null vs") (simp_all add: sql_max_def)

lemma sql_min_Some: "sql_min vs = Some x \<longleftrightarrow> (Some x \<in> set vs \<and> (\<forall>y. Some y \<in> set vs \<longrightarrow> x \<le> y))"
proof -
  define A where "A = set (non_null vs)"
  have fin: "finite A" by (simp add: A_def)
  have mem: "y \<in> A \<longleftrightarrow> Some y \<in> set vs" for y by (simp add: A_def non_null_set)
  have m: "sql_min vs = (if A = {} then None else Some (Min A))"
    unfolding A_def by (rule sql_min_set)
  have "Min A = x \<longleftrightarrow> x \<in> A \<and> (\<forall>y\<in>A. x \<le> y)" if "A \<noteq> {}"
    using that fin by (metis Min_eqI Min_in Min_le)
  then have "sql_min vs = Some x \<longleftrightarrow> x \<in> A \<and> (\<forall>y\<in>A. x \<le> y)"
    unfolding m by auto
  then show ?thesis using mem by auto
qed

lemma sql_max_Some: "sql_max vs = Some x \<longleftrightarrow> (Some x \<in> set vs \<and> (\<forall>y. Some y \<in> set vs \<longrightarrow> y \<le> x))"
proof -
  define A where "A = set (non_null vs)"
  have fin: "finite A" by (simp add: A_def)
  have mem: "y \<in> A \<longleftrightarrow> Some y \<in> set vs" for y by (simp add: A_def non_null_set)
  have m: "sql_max vs = (if A = {} then None else Some (Max A))"
    unfolding A_def by (rule sql_max_set)
  have "Max A = x \<longleftrightarrow> x \<in> A \<and> (\<forall>y\<in>A. y \<le> x)" if "A \<noteq> {}"
    using that fin by (metis Max_eqI Max_in Max_ge)
  then have "sql_max vs = Some x \<longleftrightarrow> x \<in> A \<and> (\<forall>y\<in>A. y \<le> x)"
    unfolding m by auto
  then show ?thesis using mem by auto
qed

lemma having_clause_iff:
  "having_clause m d opp \<longleftrightarrow>
     (\<exists>x. profit_margin_pct opp = Some x \<and> m \<le> x) \<and> (\<exists>y. price_diff opp = Some y \<and> d \<le> y)"
  by (cases "profit_margin_pct opp"; cases "price_diff opp")
     (auto simp: having_clause_def sql_and_def sql_ge_def)

lemma price_comparison_row_fields:
  assumes "price_comparison_row k g = Inr opp"
  shows "opp_product_id opp = fst k" and "opp_title opp = snd k"
    and "min_price opp = sql_min (map price g)"
    and "max_price opp = sql_max (map price g)"
    and "price_diff opp = sql_sub (sql_max (map price g)) (sql_min (map price g))"
    and "\<exists>q. sql_div (price_diff opp) (min_price opp) = Inr q \<and> profit_margin_pct opp = sql_mul q (Some 100)"
    and "retailer_count opp = count_distinct (map site g)"
    and "array_offset_0 (take 1 (map site (order_by price g))) = Inr (cheapest_retailer opp)"
    and "array_offset_0 (take 1 (map site (order_by_desc price g))) = Inr (expensive_retailer opp)"
  using assms by (auto simp: price_comparison_row_def Let_def split: sum.splits)

lemma price_comparison_groups_member:
  assumes "price_comparison_groups latest = Inr groups" and "opp \<in> set groups"
  shows "price_comparison_row (opp_product_id opp, opp_title opp)
           (filter (\<lambda>r. (product_id r, title r) = (opp_product_id opp, opp_title opp))
              (filter (\<lambda>r. price r \<noteq> None) latest)) = Inr opp"
    and "(opp_product_id opp, opp_title opp)
           \<in> set (map (\<lambda>r. (product_id r, title r)) (filter (\<lambda>r. price r \<noteq> None) latest))"
proof -
  define rows where "rows = filter (\<lambda>r. price r \<noteq> None) latest"
  define key where "key = (\<lambda>r::latest_price. (product_id r, title r))"
  from assms(1) have "map (\<lambda>(k, g). price_comparison_row k g) (partition_by key rows) = map Inr groups"
    by (simp add: price_comparison_groups_def collect_Inr_iff rows_def key_def)
  then have "Inr opp \<in> set (map (\<lambda>(k, g). price_comparison_row k g) (partition_by key rows))"
    using assms(2) by simp
  then obtain x where x: "x \<in> set rows"
    and rx: "price_comparison_row (key x) (filter (\<lambda>r. key r = key x) rows) = Inr opp"
    by (auto simp: partition_by_def)
  define k where "k = key x"
  have k: "k \<in> set (map key rows)" and r: "price_comparison_row k (filter (\<lambda>r. key r = k) rows) = Inr opp"
    using x rx by (simp_all add: k_def)
  have "k = (opp_product_id opp, opp_title opp)"
    using price_comparison_row_fields(1,2) [OF r] by (cases k) simp
  with k r show "price_comparison_row (opp_product_id opp, opp_title opp)
           (filter (\<lambda>r. (product_id r, title r) = (opp_product_id opp, opp_title opp))
              (filter (\<lambda>r. price r \<noteq> None) latest)) = Inr opp"
    and "(opp_product_id opp, opp_title opp)
           \<in> set (map (\<lambda>r. (product_id r, title r)) (filter (\<lambda>r. price r \<noteq> None) latest))"
    unfolding rows_def key_def by blast+
qed

lemma arbitrage_opportunities_with_Inr:
  "arbitrage_opportunities_with m d latest = Inr out \<longleftrightarrow>
     (\<exists>groups. price_comparison_groups latest = Inr groups \<and>
               out = order_by_desc profit_margin_pct (filter (having_clause m d) groups))"
  by (auto simp: arbitrage_opportunities_with_def price_comparison_def split: sum.splits)

lemma arbitrage_opportunities_with_Inl:
  "arbitrage_opportunities_with m d latest = Inl e \<longleftrightarrow> price_comparison_groups latest = Inl e"
  by (auto simp: arbitrage_opportunities_with_def price_comparison_def split: sum.splits)

lemma length_order_by_desc: "length (order_by_desc f xs) = length xs"
  by (simp add: order_by_desc_def)

lemma length_filter_mono:
  "(\<And>x. x \<in> set xs \<Longrightarrow> P x \<Longrightarrow> Q x) \<Longrightarrow> length (filter P xs) \<le> length (filter Q xs)"
  by (induction xs) auto

lemma having_clause_mono: "m1 \<le> m2 \<Longrightarrow> having_clause m2 d opp \<Longrightarrow> having_clause m1 d opp"
  by (auto simp: having_clause_iff)

lemma order_by_Nil: "order_by f xs = [] \<longleftrightarrow> xs = []"
  by (metis order_by_def set_empty set_sort)

lemma hd_order_by_in: "xs \<noteq> [] \<Longrightarrow> hd (order_by f xs) \<in> set xs"
proof -
  assume "xs \<noteq> []"
  then have "order_by f xs \<noteq> []" by (simp add: order_by_Nil)
  then have "hd (order_by f xs) \<in> set (order_by f xs)" by (rule hd_in_set)
  then show ?thesis by (simp add: order_by_def)
qed

lemma hd_order_by_min:
  assumes "x \<in> set xs"
  shows "f (hd (order_by f xs)) \<le> f x"
proof -
  obtain y ys where e: "order_by f xs = y # ys"
    using assms by (cases "order_by f xs") (auto simp: order_by_Nil)
  have "sorted (map f (order_by f xs))" by (simp add: order_by_def)
  then have "\<forall>z\<in>set ys. f y \<le> f z" by (simp add: e)
  moreover have "x \<in> set (y # ys)" using assms e [symmetric] by (simp add: order_by_def)
  ultimately show ?thesis by (auto simp: e)
qed

lemma first_of_ordered:
  assumes "array_offset_0 (take 1 (map h ys)) = Inr c"
  shows "ys \<noteq> [] \<and> c = h (hd ys)"
  using assms by (cases ys) (simp_all add: array_offset_0_def)

lemma cheapest_retailer_row:
  assumes row: "price_comparison_row k g = Inr opp" and nn: "\<forall>r\<in>set g. price r \<noteq> None"
  shows "\<exists>r\<in>set g. site r = cheapest_retailer opp \<and> price r = min_price opp"
proof -
  let ?top = "hd (order_by price g)"
  from price_comparison_row_fields(8) [OF row]
  have ne: "order_by price g \<noteq> []" and c: "cheapest_retailer opp = site ?top"
    by (simp_all add: first_of_ordered)
  from ne have g: "g \<noteq> []" by (simp add: order_by_Nil)
  then have top: "?top \<in> set g" by (rule hd_order_by_in)
  with nn obtain x where x: "price ?top = Some x" by auto
  have "sql_min (map price g) = Some x"
    unfolding sql_min_Some
  proof (intro conjI allI impI)
    show "Some x \<in> set (map price g)" using top x by force
    fix y assume "Some y \<in> set (map price g)"
    then obtain r where "r \<in> set g" "price r = Some y" by auto
    then have "price ?top \<le> Some y" using hd_order_by_min [of r g price] by simp
    then show "x \<le> y" by (simp add: x)
  qed
  then have "price ?top = min_price opp"
    by (simp add: x price_comparison_row_fields(3) [OF row])
  with top c show ?thesis by auto
qed

lemma expensive_retailer_row:
  assumes row: "price_comparison_row k g = Inr opp" and nn: "\<forall>r\<in>set g. price r \<noteq> None"
  shows "\<exists>r\<in>set g. site r = expensive_retailer opp \<and> price r = max_price opp"
proof -
  let ?top = "hd (order_by_desc price g)"
  from price_comparison_row_fields(9) [OF row]
  have ne: "order_by_desc price g \<noteq> []" and c: "expensive_retailer opp = site ?top"
    by (simp_all add: first_of_ordered)
  from ne have g: "g \<noteq> []" by (simp add: order_by_desc_Nil)
  then have top: "?top \<in> set g" by (rule hd_order_by_desc_in)
  with nn obtain x where x: "price ?top = Some x" by auto
  have "sql_max (map price g) = Some x"
    unfolding sql_max_Some
  proof (intro conjI allI impI)
    show "Some x \<in> set (map price g)" using top x by force
    fix y assume "Some y \<in> set (map price g)"
    then obtain r where "r \<in> set g" "price r = Some y" by auto
    then have "Some y \<le> price ?top" using hd_order_by_desc_max [of r g price] by simp
    then show "y \<le> x" by (simp add: x)
  qed
  then have "price ?top = max_price opp"
    by (simp add: x price_comparison_row_fields(4) [OF row])
  with top c show ?thesis by auto
qed

lemma single_row_group:
  assumes "price_comparison_row k [r] = Inr opp" and "price r = Some x"
  shows "price_diff opp = Some 0" and "profit_margin_pct opp = Some 0"
  using assms
  by (auto simp: price_comparison_row_def Let_def sql_min_def sql_max_def non_null_def
      sql_sub_def sql_div_def sql_mul_def split: sum.splits if_splits)

lemma single_row_not_having:
  assumes "price_comparison_row k [r] = Inr opp" and "price r \<noteq> None" and "0 < m \<or> 0 < d"
  shows "\<not> having_clause m d opp"
proof -
  from assms(2) obtain x where "price r = Some x" by auto
  from single_row_group [OF assms(1) this] assms(3) show ?thesis
    by (auto simp: having_clause_iff)
qed

lemma group_of_one_not_having:
  assumes g: "price_comparison_groups latest = Inr groups" and o: "opp \<in> set groups"
    and one: "length (filter (\<lambda>r. price r \<noteq> None \<and> product_id r = opp_product_id opp \<and>
                                title r = opp_title opp) latest) \<le> 1"
    and pos: "0 < m \<or> 0 < d"
  shows "\<not> having_clause m d opp"
proof -
  define grp where "grp = filter (\<lambda>r. (product_id r, title r) = (opp_product_id opp, opp_title opp))
              (filter (\<lambda>r. price r \<noteq> None) latest)"
  have row: "price_comparison_row (opp_product_id opp, opp_title opp) grp = Inr opp"
    unfolding grp_def by (rule price_comparison_groups_member(1) [OF g o])
  have "(opp_product_id opp, opp_title opp)
           \<in> set (map (\<lambda>r. (product_id r, title r)) (filter (\<lambda>r. price r \<noteq> None) latest))"
    by (rule price_comparison_groups_member(2) [OF g o])
  then have ne: "grp \<noteq> []"
    unfolding grp_def by (auto simp: filter_empty_conv)
  have "grp = filter (\<lambda>r. price r \<noteq> None \<and> product_id r = opp_product_id opp \<and>
                                title r = opp_title opp) latest"
    unfolding grp_def by (auto intro: filter_cong)
  with one have "length grp \<le> 1" by simp
  with ne obtain r where r: "grp = [r]"
    by (cases grp) auto
  have "r \<in> set grp" by (simp add: r)
  then have nn: "price r \<noteq> None" by (simp add: grp_def)
  from row have "price_comparison_row (opp_product_id opp, opp_title opp) [r] = Inr opp"
    by (simp only: r)
  then show ?thesis using nn pos by (rule single_row_not_having)
qed

lemma length_filter_distinct_key:
  "distinct (map f xs) \<Longrightarrow> length (filter (\<lambda>x. f x = v) xs) \<le> 1"
  by (induction xs) (auto simp: filter_empty_conv image_iff)


subsection \<open>A minimum price of zero\<close>

text \<open>
  Claim C2 asks that a product whose minimum price is at most 0 be left out without a
  division by zero. The view divides by \<^verbatim>\<open>MIN(price)\<close> unguarded: with prices 0 and 10
  for one product the select list raises, and the whole query fails.
\<close>

theorem zero_min_price_raises:
  "arbitrage_opportunities ex_now ex_zero_price = Inl Division_by_zero"
  by (simp add: view_defs ex_zero_price_def)

subsection \<open>Both thresholds\<close>

text \<open>
  Claim C3. Every opportunity that the query returns has a margin of at least
  \<open>min_margin_pct\<close> and a price difference of at least \<open>min_price_diff\<close>, both at once;
  the returned opportunities are exactly the groups that meet both conditions, so a
  group that meets only one of them is not returned.
\<close>

theorem both_thresholds_hold:
  assumes "arbitrage_opportunities_with min_margin_pct min_price_diff latest = Inr out"
  shows "(\<forall>opp \<in> set out.
            (\<exists>x. profit_margin_pct opp = Some x \<and> min_margin_pct \<le> x) \<and>
            (\<exists>y. price_diff opp = Some y \<and> min_price_diff \<le> y)) \<and>
         (\<exists>groups. price_comparison_groups latest = Inr groups \<and>
            set out = {opp \<in> set groups.
                         (\<exists>x. profit_margin_pct opp = Some x \<and> min_margin_pct \<le> x) \<and>
                         (\<exists>y. price_diff opp = Some y \<and> min_price_diff \<le> y)})"
proof -
  from assms obtain groups where g: "price_comparison_groups latest = Inr groups"
    and out: "out = order_by_desc profit_margin_pct (filter (having_clause min_margin_pct min_price_diff) groups)"
    unfolding arbitrage_opportunities_with_Inr by blast
  have s: "set out = {opp \<in> set groups. having_clause min_margin_pct min_price_diff opp}"
    by (simp add: out set_order_by_desc)
  show ?thesis
  proof (intro conjI ballI exI [of _ groups])
    fix opp assume "opp \<in> set out"
    then have "having_clause min_margin_pct min_price_diff opp" by (simp add: s)
    then show "\<exists>x. profit_margin_pct opp = Some x \<and> min_margin_pct \<le> x"
      and "\<exists>y. price_diff opp = Some y \<and> min_price_diff \<le> y"
      by (simp_all add: having_clause_iff)
  next
    show "price_comparison_groups latest = Inr groups" by (rule g)
    show "set out = {opp \<in> set groups.
                         (\<exists>x. profit_margin_pct opp = Some x \<and> min_margin_pct \<le> x) \<and>
                         (\<exists>y. price_diff opp = Some y \<and> min_price_diff \<le> y)}"
      unfolding s having_clause_iff ..
  qed
qed

text \<open>At the thresholds of the view, product P1 (80 and 100) has margin 25 and difference 20.\<close>

theorem both_thresholds_hold_witness:
  "arbitrage_opportunities_with 5 1 (latest_prices ex_now ex_products) = Inr [ex_opportunity] \<and>
   (\<exists>x. profit_margin_pct ex_opportunity = Some x \<and> 5 \<le> x) \<and>
   (\<exists>y. price_diff ex_opportunity = Some y \<and> 1 \<le> y)"
proof -
  have e: "arbitrage_opportunities_with 5 1 (latest_prices ex_now ex_products) = Inr [ex_opportunity]"
    by (simp add: view_defs ex_products_def ex_opportunity_def)
  from both_thresholds_hold [OF e] e show ?thesis by simp
qed

subsection \<open>Grouping by product and title\<close>

text \<open>
  Claim C4. The groups are the pairs \<open>(product_id, title)\<close>: the minimum, the maximum
  and the retailer count of a returned opportunity are taken over the priced rows that
  carry its product and its title, so a row of the same product with another title
  never contributes; and when the priced rows of a product \<open>p\<close> all carry different
  titles, no opportunity is returned for \<open>p\<close> (under thresholds of which one is
  positive, as the 5 and 1.0 of the view).
\<close>

theorem grouped_by_product_and_title:
  assumes "arbitrage_opportunities_with m d latest = Inr out"
  shows "(\<forall>opp \<in> set out.
            min_price opp = sql_min (map price (filter (\<lambda>r. price r \<noteq> None \<and>
                product_id r = opp_product_id opp \<and> title r = opp_title opp) latest)) \<and>
            max_price opp = sql_max (map price (filter (\<lambda>r. price r \<noteq> None \<and>
                product_id r = opp_product_id opp \<and> title r = opp_title opp) latest)) \<and>
            retailer_count opp = count_distinct (map site (filter (\<lambda>r. price r \<noteq> None \<and>
                product_id r = opp_product_id opp \<and> title r = opp_title opp) latest))) \<and>
         ((0 < m \<or> 0 < d) \<and>
          distinct (map title (filter (\<lambda>r. price r \<noteq> None \<and> product_id r = p) latest))
            \<longrightarrow> (\<forall>opp \<in> set out. opp_product_id opp \<noteq> p))"
proof -
  from assms obtain groups where g: "price_comparison_groups latest = Inr groups"
    and out: "out = order_by_desc profit_margin_pct (filter (having_clause m d) groups)"
    unfolding arbitrage_opportunities_with_Inr by blast
  have mem: "opp \<in> set groups \<and> having_clause m d opp" if "opp \<in> set out" for opp
    using that by (simp add: out set_order_by_desc)
  have grp: "filter (\<lambda>r. (product_id r, title r) = (opp_product_id opp, opp_title opp))
              (filter (\<lambda>r. price r \<noteq> None) latest) =
             filter (\<lambda>r. price r \<noteq> None \<and> product_id r = opp_product_id opp \<and>
                title r = opp_title opp) latest" for opp :: arbitrage_opportunity
    by (auto intro: filter_cong)
  show ?thesis
  proof (intro conjI ballI impI)
    fix opp assume "opp \<in> set out"
    then have "opp \<in> set groups" by (simp add: mem)
    from price_comparison_groups_member(1) [OF g this]
    have row: "price_comparison_row (opp_product_id opp, opp_title opp)
                 (filter (\<lambda>r. price r \<noteq> None \<and> product_id r = opp_product_id opp \<and>
                    title r = opp_title opp) latest) = Inr opp"
      by (simp only: grp)
    show "min_price opp = sql_min (map price (filter (\<lambda>r. price r \<noteq> None \<and>
                product_id r = opp_product_id opp \<and> title r = opp_title opp) latest))"
      by (rule price_comparison_row_fields(3) [OF row])
    show "max_price opp = sql_max (map price (filter (\<lambda>r. price r \<noteq> None \<and>
                product_id r = opp_product_id opp \<and> title r = opp_title opp) latest))"
      by (rule price_comparison_row_fields(4) [OF row])
    show "retailer_count opp = count_distinct (map site (filter (\<lambda>r. price r \<noteq> None \<and>
                product_id r = opp_product_id opp \<and> title r = opp_title opp) latest))"
      by (rule price_comparison_row_fields(7) [OF row])
  next
    fix opp
    assume h: "(0 < m \<or> 0 < d) \<and>
          distinct (map title (filter (\<lambda>r. price r \<noteq> None \<and> product_id r = p) latest))"
      and o: "opp \<in> set out"
    show "opp_product_id opp \<noteq> p"
    proof
      assume p: "opp_product_id opp = p"
      have "length (filter (\<lambda>r. title r = opp_title opp)
                (filter (\<lambda>r. price r \<noteq> None \<and> product_id r = p) latest)) \<le> 1"
        using h by (intro length_filter_distinct_key) simp
      moreover have "filter (\<lambda>r. title r = opp_title opp)
                (filter (\<lambda>r. price r \<noteq> None \<and> product_id r = p) latest) =
             filter (\<lambda>r. price r \<noteq> None \<and> product_id r = opp_product_id opp \<and>
                title r = opp_title opp) latest"
        by (auto simp: p intro: filter_cong)
      ultimately have "\<not> having_clause m d opp"
        using g mem [OF o] h by (intro group_of_one_not_having [of latest groups]) simp_all
      with mem [OF o] show False by simp
    qed
  qed
qed

text \<open>
  Product P1 at kohls for 50 under another title is not the minimum of the P1
  opportunity (80), and product P3, whose two retailers differ in title, yields none.
\<close>

theorem grouped_by_product_and_title_witness:
  "arbitrage_opportunities_with 5 1 (latest_prices ex_now ex_titles) = Inr [ex_opportunity] \<and>
   (0 < (5::rat) \<or> 0 < (1::rat)) \<and>
   distinct (map title (filter (\<lambda>r. price r \<noteq> None \<and> product_id r = ''P3'')
                          (latest_prices ex_now ex_titles))) \<and>
   min_price ex_opportunity =
     sql_min (map price (filter (\<lambda>r. price r \<noteq> None \<and> product_id r = ''P1'' \<and>
                 title r = Some ''Widget'') (latest_prices ex_now ex_titles))) \<and>
   opp_product_id ex_opportunity \<noteq> ''P3''"
proof -
  have e: "arbitrage_opportunities_with 5 1 (latest_prices ex_now ex_titles) = Inr [ex_opportunity]"
    by (simp add: view_defs ex_titles_def ex_opportunity_def)
  have d: "distinct (map title (filter (\<lambda>r. price r \<noteq> None \<and> product_id r = ''P3'')
                          (latest_prices ex_now ex_titles)))"
    by (simp add: view_defs ex_titles_def)
  from grouped_by_product_and_title [OF e, of "''P3''"] d e show ?thesis
    by (simp add: ex_opportunity_def)
qed

subsection \<open>The order of the result\<close>

text \<open>
  The view orders by \<^verbatim>\<open>profit_margin_pct DESC\<close> alone. For two products of equal
  margin scanned in the order P1, P2 the result lists P1 (difference 10) before P2
  (difference 100): the tie is not broken by \<open>price_diff\<close> descending.
\<close>

theorem total_order_counterexample:
  "arbitrage_opportunities ex_now ex_tied_margins =
     Inr [\<lparr>opp_product_id = ''P1'', opp_title = Some ''Widget'', min_price = Some 10,
            max_price = Some 20, price_diff = Some 10, profit_margin_pct = Some 100,
            retailer_count = 2, cheapest_retailer = ''amazon'', expensive_retailer = ''walmart''\<rparr>,
          \<lparr>opp_product_id = ''P2'', opp_title = Some ''Gadget'', min_price = Some 100,
            max_price = Some 200, price_diff = Some 100, profit_margin_pct = Some 100,
            retailer_count = 2, cheapest_retailer = ''amazon'', expensive_retailer = ''walmart''\<rparr>]"
  by (simp add: view_defs ex_tied_margins_def)

text \<open>
  Claim C5, amended. The result is sorted by \<open>profit_margin_pct\<close> descending; the order
  among opportunities of equal margin is not determined by the query.
\<close>

theorem sorted_by_margin_desc:
  assumes "arbitrage_opportunities_with m d latest = Inr out"
  shows "sorted_wrt (\<lambda>a b. profit_margin_pct b \<le> profit_margin_pct a) out"
  using assms unfolding arbitrage_opportunities_with_Inr
  by (auto simp: sorted_order_by_desc)

theorem sorted_by_margin_desc_witness:
  "arbitrage_opportunities_with 5 1 (latest_prices ex_now ex_ranked) =
     Inr [\<lparr>opp_product_id = ''P2'', opp_title = Some ''Gadget'', min_price = Some 100,
            max_price = Some 200, price_diff = Some 100, profit_margin_pct = Some 100,
            retailer_count = 2, cheapest_retailer = ''amazon'', expensive_retailer = ''walmart''\<rparr>,
          ex_opportunity] \<and>
   profit_margin_pct ex_opportunity \<le> Some 100"
proof -
  have e: "arbitrage_opportunities_with 5 1 (latest_prices ex_now ex_ranked) =
     Inr [\<lparr>opp_product_id = ''P2'', opp_title = Some ''Gadget'', min_price = Some 100,
            max_price = Some 200, price_diff = Some 100, profit_margin_pct = Some 100,
            retailer_count = 2, cheapest_retailer = ''amazon'', expensive_retailer = ''walmart''\<rparr>,
          ex_opportunity]"
    by (simp add: view_defs ex_ranked_def ex_opportunity_def)
  from sorted_by_margin_desc [OF e] e show ?thesis by simp
qed

subsection \<open>The cheapest and the most expensive retailer\<close>

text \<open>
  \<^verbatim>\<open>ARRAY_AGG(site ORDER BY price LIMIT 1)\<close> orders by price alone. With walmart
  scanned before amazon at the lowest price, and target before kohls at the highest,
  the view reports walmart and target, neither of which sorts first among the tied
  sites.
\<close>

theorem lexicographic_tie_break_counterexample:
  "arbitrage_opportunities ex_now ex_tied_prices =
     Inr [\<lparr>opp_product_id = ''P1'', opp_title = Some ''Widget'', min_price = Some 10,
            max_price = Some 20, price_diff = Some 10, profit_margin_pct = Some 100,
            retailer_count = 4, cheapest_retailer = ''walmart'', expensive_retailer = ''target''\<rparr>] \<and>
   ''amazon'' < ''walmart'' \<and> ''kohls'' < ''target''"
  by (simp add: view_defs ex_tied_prices_def)

text \<open>
  Claim C6, amended. For every returned opportunity, \<open>cheapest_retailer\<close> is the site of
  a priced row of its group whose price is \<open>min_price\<close>, and \<open>expensive_retailer\<close> the
  site of one whose price is \<open>max_price\<close>; which of several tied retailers is reported
  is not determined by the order of the site names.
\<close>

theorem retailers_at_extreme_prices:
  assumes "arbitrage_opportunities_with m d latest = Inr out"
  shows "\<forall>opp \<in> set out.
           (\<exists>r \<in> set latest. product_id r = opp_product_id opp \<and> title r = opp_title opp \<and>
               price r \<noteq> None \<and> price r = min_price opp \<and> site r = cheapest_retailer opp) \<and>
           (\<exists>r \<in> set latest. product_id r = opp_product_id opp \<and> title r = opp_title opp \<and>
               price r \<noteq> None \<and> price r = max_price opp \<and> site r = expensive_retailer opp)"
proof
  fix opp assume o: "opp \<in> set out"
  from assms obtain groups where g: "price_comparison_groups latest = Inr groups"
    and out: "out = order_by_desc profit_margin_pct (filter (having_clause m d) groups)"
    unfolding arbitrage_opportunities_with_Inr by blast
  from o have og: "opp \<in> set groups" by (simp add: out set_order_by_desc)
  define grp where "grp = filter (\<lambda>r. (product_id r, title r) = (opp_product_id opp, opp_title opp))
              (filter (\<lambda>r. price r \<noteq> None) latest)"
  have row: "price_comparison_row (opp_product_id opp, opp_title opp) grp = Inr opp"
    unfolding grp_def by (rule price_comparison_groups_member(1) [OF g og])
  have nn: "\<forall>r\<in>set grp. price r \<noteq> None" by (simp add: grp_def)
  have sub: "r \<in> set latest \<and> product_id r = opp_product_id opp \<and> title r = opp_title opp \<and> price r \<noteq> None"
    if "r \<in> set grp" for r using that by (simp add: grp_def)
  from cheapest_retailer_row [OF row nn] expensive_retailer_row [OF row nn] sub
  show "(\<exists>r \<in> set latest. product_id r = opp_product_id opp \<and> title r = opp_title opp \<and>
               price r \<noteq> None \<and> price r = min_price opp \<and> site r = cheapest_retailer opp) \<and>
           (\<exists>r \<in> set latest. product_id r = opp_product_id opp \<and> title r = opp_title opp \<and>
               price r \<noteq> None \<and> price r = max_price opp \<and> site r = expensive_retailer opp)"
    by blast
qed

theorem retailers_at_extreme_prices_witness:
  "arbitrage_opportunities_with 5 1 (latest_prices ex_now ex_products) = Inr [ex_opportunity] \<and>
   (\<exists>r \<in> set (latest_prices ex_now ex_products).
      product_id r = ''P1'' \<and> title r = Some ''Widget'' \<and> price r = Some 80 \<and> site r = ''walmart'') \<and>
   (\<exists>r \<in> set (latest_prices ex_now ex_products).
      product_id r = ''P1'' \<and> title r = Some ''Widget'' \<and> price r = Some 100 \<and> site r = ''amazon'')"
proof -
  have e: "arbitrage_opportunities_with 5 1 (latest_prices ex_now ex_products) = Inr [ex_opportunity]"
    by (simp add: view_defs ex_products_def ex_opportunity_def)
  from retailers_at_extreme_prices [OF e] e show ?thesis
    by (auto simp: ex_opportunity_def)
qed

subsection \<open>Raising the margin threshold\<close>

text \<open>
  Claim C7. For a fixed input and a fixed \<open>min_price_diff\<close>, the number of returned
  opportunities is antitone in \<open>min_margin_pct\<close>: for \<open>m1 \<le> m2\<close> the query either
  fails with the same error at both thresholds, or returns at both and returns at most
  as many opportunities at \<open>m2\<close> as at \<open>m1\<close>.
\<close>

theorem result_count_antitone:
  assumes "m1 \<le> m2"
  shows "(\<exists>e. arbitrage_opportunities_with m1 d latest = Inl e \<and>
              arbitrage_opportunities_with m2 d latest = Inl e) \<or>
         (\<exists>out1 out2. arbitrage_opportunities_with m1 d latest = Inr out1 \<and>
              arbitrage_opportunities_with m2 d latest = Inr out2 \<and>
              length out2 \<le> length out1)"
proof (cases "price_comparison_groups latest")
  case (Inl e)
  then show ?thesis by (simp add: arbitrage_opportunities_with_Inl)
next
  case (Inr groups)
  have "length (filter (having_clause m2 d) groups) \<le> length (filter (having_clause m1 d) groups)"
    by (rule length_filter_mono) (rule having_clause_mono [OF assms])
  then show ?thesis
    using Inr by (simp add: arbitrage_opportunities_with_Inr length_order_by_desc)
qed

text \<open>Product P1 with margin 25 is returned at threshold 5 and not at threshold 30.\<close>

theorem result_count_antitone_witness:
  "(5::rat) \<le> 30 \<and>
   arbitrage_opportunities_with 5 1 (latest_prices ex_now ex_products) = Inr [ex_opportunity] \<and>
   arbitrage_opportunities_with 30 1 (latest_prices ex_now ex_products) = Inr [] \<and>
   (\<exists>out1 out2.
      arbitrage_opportunities_with 5 1 (latest_prices ex_now ex_products) = Inr out1 \<and>
      arbitrage_opportunities_with 30 1 (latest_prices ex_now ex_products) = Inr out2 \<and>
      length out2 \<le> length out1)"
proof -
  have le: "(5::rat) \<le> 30" by simp
  have e1: "arbitrage_opportunities_with 5 1 (latest_prices ex_now ex_products) = Inr [ex_opportunity]"
    by (simp add: view_defs ex_products_def ex_opportunity_def)
  have e2: "arbitrage_opportunities_with 30 1 (latest_prices ex_now ex_products) = Inr []"
    by (simp add: view_defs ex_products_def)
  from result_count_antitone [OF le, of 1 "latest_prices ex_now ex_products"] e1 e2
  show ?thesis by simp
qed

subsection \<open>Products with a single priced retailer\<close>




section \<open>Properties of \<^verbatim>\<open>price_history_aggregated\<close>\<close>

lemma price_history_aggregated_row:
  assumes "h \<in> set (price_history_aggregated now products)"
  shows "h_currency h =
           sql_max (map currency
             (filter (\<lambda>r. (product_id r, date_of (scraped_at r), site r) = (h_product_id h, date h, h_site h))
                (filter (\<lambda>r. price r \<noteq> None \<and> timestamp_sub_day now 90 \<le> scraped_at r) products)))"
proof -
  define rows where "rows = filter (\<lambda>r. price r \<noteq> None \<and> timestamp_sub_day now 90 \<le> scraped_at r) products"
  define key where "key = (\<lambda>r::product. (product_id r, date_of (scraped_at r), site r))"
  from assms obtain k where k: "k \<in> set (map key rows)"
    and h: "h = (\<lambda>((pid, d, s), g).
                \<lparr>h_product_id = pid, date = d, h_site = s,
                 avg_price = sql_avg (map price g),
                 h_min_price = sql_min (map price g),
                 h_max_price = sql_max (map price g),
                 h_currency = sql_max (map currency g),
                 data_points = length g\<rparr>) (k, filter (\<lambda>r. key r = k) rows)"
    unfolding price_history_aggregated_def Let_def rows_def [symmetric] key_def [symmetric] partition_by_def
    by auto
  obtain pid d s where kk: "k = (pid, d, s)" by (cases k)
  have "h_currency h = sql_max (map currency (filter (\<lambda>r. key r = k) rows))"
    and "(h_product_id h, date h, h_site h) = k"
    by (simp_all add: h kk)
  then show ?thesis
    unfolding rows_def key_def by simp
qed

lemma sql_max_map_Some:
  "sql_max (map f g) = Some c \<longleftrightarrow>
     (\<exists>r \<in> set g. f r = Some c) \<and> (\<forall>r \<in> set g. \<forall>c'. f r = Some c' \<longrightarrow> c' \<le> c)"
proof -
  have 1: "Some c \<in> set (map f g) \<longleftrightarrow> (\<exists>r \<in> set g. f r = Some c)"
    by force
  have 2: "(\<forall>y. Some y \<in> set (map f g) \<longrightarrow> y \<le> c) \<longleftrightarrow> (\<forall>r \<in> set g. \<forall>c'. f r = Some c' \<longrightarrow> c' \<le> c)"
    by force
  show ?thesis unfolding sql_max_Some 1 2 ..
qed

text \<open>
  The view takes \<^verbatim>\<open>MAX(currency)\<close>. For a day with an observation in USD followed by
  one in CAD, the point carries USD, the greater string, and not CAD, the currency
  observed last.
\<close>

theorem last_currency_counterexample:
  "price_history_aggregated ex_now ex_currencies =
     [\<lparr>h_product_id = ''P1'', date = 19674, h_site = ''amazon'', avg_price = Some (201 / 2),
       h_min_price = Some 100, h_max_price = Some 101, h_currency = Some ''USD'',
       data_points = 2\<rparr>] \<and>
   date_of (scraped_at (ex_currencies ! 0)) = 19674 \<and>
   date_of (scraped_at (ex_currencies ! 1)) = 19674 \<and>
   scraped_at (ex_currencies ! 0) < scraped_at (ex_currencies ! 1) \<and>
   currency (ex_currencies ! 1) = Some ''CAD''"
  by (simp add: view_defs ex_currencies_def)

text \<open>
  Claim C9, amended. For every emitted point, the currency is the greatest, in string
  order, of the non-null currencies among the observations of its
  \<open>(product_id, date, site)\<close> group (those with a price, scraped within 90 days); it
  is null when the group has no currency.
\<close>

theorem history_currency_is_greatest:
  "\<forall>h \<in> set (price_history_aggregated now products). \<forall>c.
     h_currency h = Some c \<longleftrightarrow>
       (\<exists>r \<in> set products.
          price r \<noteq> None \<and> timestamp_sub_day now 90 \<le> scraped_at r \<and>
          product_id r = h_product_id h \<and> date_of (scraped_at r) = date h \<and> site r = h_site h \<and>
          currency r = Some c) \<and>
       (\<forall>r \<in> set products.
          price r \<noteq> None \<and> timestamp_sub_day now 90 \<le> scraped_at r \<and>
          product_id r = h_product_id h \<and> date_of (scraped_at r) = date h \<and> site r = h_site h
            \<longrightarrow> (\<forall>c'. currency r = Some c' \<longrightarrow> c' \<le> c))"
proof (intro ballI allI)
  fix h c assume h: "h \<in> set (price_history_aggregated now products)"
  define grp where "grp = filter (\<lambda>r. (product_id r, date_of (scraped_at r), site r) = (h_product_id h, date h, h_site h))
                (filter (\<lambda>r. price r \<noteq> None \<and> timestamp_sub_day now 90 \<le> scraped_at r) products)"
  have hc: "h_currency h = sql_max (map currency grp)"
    unfolding grp_def using h by (rule price_history_aggregated_row)
  have g: "r \<in> set grp \<longleftrightarrow>
             r \<in> set products \<and> price r \<noteq> None \<and> timestamp_sub_day now 90 \<le> scraped_at r \<and>
             product_id r = h_product_id h \<and> date_of (scraped_at r) = date h \<and> site r = h_site h" for r
    by (auto simp: grp_def)
  have "h_currency h = Some c \<longleftrightarrow>
          (\<exists>r \<in> set grp. currency r = Some c) \<and>
          (\<forall>r \<in> set grp. \<forall>c'. currency r = Some c' \<longrightarrow> c' \<le> c)"
    unfolding hc by (rule sql_max_map_Some)
  also have "(\<exists>r \<in> set grp. currency r = Some c) \<longleftrightarrow>
       (\<exists>r \<in> set products.
          price r \<noteq> None \<and> timestamp_sub_day now 90 \<le> scraped_at r \<and>
          product_id r = h_product_id h \<and> date_of (scraped_at r) = date h \<and> site r = h_site h \<and>
          currency r = Some c)"
    unfolding Bex_def g by blast
  also have "(\<forall>r \<in> set grp. \<forall>c'. currency r = Some c' \<longrightarrow> c' \<le> c) \<longleftrightarrow>
       (\<forall>r \<in> set products.
          price r \<noteq> None \<and> timestamp_sub_day now 90 \<le> scraped_at r \<and>
          product_id r = h_product_id h \<and> date_of (scraped_at r) = date h \<and> site r = h_site h
            \<longrightarrow> (\<forall>c'. currency r = Some c' \<longrightarrow> c' \<le> c))"
    unfolding Ball_def g by blast
  finally show "h_currency h = Some c \<longleftrightarrow>
       (\<exists>r \<in> set products.
          price r \<noteq> None \<and> timestamp_sub_day now 90 \<le> scraped_at r \<and>
          product_id r = h_product_id h \<and> date_of (scraped_at r) = date h \<and> site r = h_site h \<and>
          currency r = Some c) \<and>
       (\<forall>r \<in> set products.
          price r \<noteq> None \<and> timestamp_sub_day now 90 \<le> scraped_at r \<and>
          product_id r = h_product_id h \<and> date_of (scraped_at r) = date h \<and> site r = h_site h
            \<longrightarrow> (\<forall>c'. currency r = Some c' \<longrightarrow> c' \<le> c))" .
qed

theorem history_currency_is_greatest_witness:
  "price_history_aggregated ex_now ex_currencies =
     [\<lparr>h_product_id = ''P1'', date = 19674, h_site = ''amazon'', avg_price = Some (201 / 2),
       h_min_price = Some 100, h_max_price = Some 101, h_currency = Some ''USD'',
       data_points = 2\<rparr>] \<and>
   ex_currencies ! 1 \<in> set ex_currencies \<and>
   price (ex_currencies ! 1) \<noteq> None \<and>
   timestamp_sub_day ex_now 90 \<le> scraped_at (ex_currencies ! 1) \<and>
   product_id (ex_currencies ! 1) = ''P1'' \<and> date_of (scraped_at (ex_currencies ! 1)) = 19674 \<and>
   site (ex_currencies ! 1) = ''amazon'' \<and> currency (ex_currencies ! 1) = Some ''CAD'' \<and>
   ''CAD'' \<le> ''USD''"
proof -
  define h where "h = \<lparr>h_product_id = ''P1'', date = 19674, h_site = ''amazon'',
       avg_price = Some (201 / 2), h_min_price = Some 100, h_max_price = Some 101,
       h_currency = Some ''USD'', data_points = 2\<rparr>"
  have e: "price_history_aggregated ex_now ex_currencies = [h]"
    unfolding h_def by (simp add: view_defs ex_currencies_def)
  have r: "ex_currencies ! 1 \<in> set ex_currencies \<and>
   price (ex_currencies ! 1) \<noteq> None \<and>
   timestamp_sub_day ex_now 90 \<le> scraped_at (ex_currencies ! 1) \<and>
   product_id (ex_currencies ! 1) = ''P1'' \<and> date_of (scraped_at (ex_currencies ! 1)) = 19674 \<and>
   site (ex_currencies ! 1) = ''amazon'' \<and> currency (ex_currencies ! 1) = Some ''CAD''"
    by (simp add: view_defs ex_currencies_def)
  have m: "h \<in> set (price_history_aggregated ex_now ex_currencies)"
    by (simp add: e)
  have f: "h_currency h = Some ''USD''" "h_product_id h = ''P1''" "date h = 19674" "h_site h = ''amazon''"
    by (simp_all add: h_def)
  from history_currency_is_greatest [of ex_now ex_currencies] m
  have "h_currency h = Some ''USD'' \<longleftrightarrow>
       (\<exists>r \<in> set ex_currencies.
          price r \<noteq> None \<and> timestamp_sub_day ex_now 90 \<le> scraped_at r \<and>
          product_id r = h_product_id h \<and> date_of (scraped_at r) = date h \<and> site r = h_site h \<and>
          currency r = Some ''USD'') \<and>
       (\<forall>r \<in> set ex_currencies.
          price r \<noteq> None \<and> timestamp_sub_day ex_now 90 \<le> scraped_at r \<and>
          product_id r = h_product_id h \<and> date_of (scraped_at r) = date h \<and> site r = h_site h
            \<longrightarrow> (\<forall>c'. currency r = Some c' \<longrightarrow> c' \<le> ''USD''))"
    by blast
  then have "\<forall>r \<in> set ex_currencies.
          price r \<noteq> None \<and> timestamp_sub_day ex_now 90 \<le> scraped_at r \<and>
          product_id r = ''P1'' \<and> date_of (scraped_at r) = 19674 \<and> site r = ''amazon''
            \<longrightarrow> (\<forall>c'. currency r = Some c' \<longrightarrow> c' \<le> ''USD'')"
    unfolding f by blast
  with r have "''CAD'' \<le> ''USD''" by blast
  with e r show ?thesis unfolding h_def by blast
qed

section \<open>Properties of \<^verbatim>\<open>product_brands\<close>\<close>

lemma distinct_map_order_by_desc: "distinct (map f (order_by_desc g xs)) = distinct (map f xs)"
  by (simp add: order_by_desc_def distinct_map)

lemma count_distinct_card: "count_distinct vs = card (set vs)"
  by (simp add: count_distinct_def length_remdups_card_conv)

lemma product_brands_keys:
  "set (map b_brand (product_brands latest)) =
     {brand r | r. r \<in> set latest \<and> brand r \<noteq> None \<and> brand r \<noteq> Some ''''}"
proof -
  define rows where "rows = filter (\<lambda>r. brand r \<noteq> None \<and> brand r \<noteq> Some '''') latest"
  have "map b_brand (product_brands latest) = map b_brand (order_by_desc product_count (map (\<lambda>(b, g).
                   \<lparr>b_brand = b,
                    product_count = count_distinct (map product_id g),
                    b_retailer_count = count_distinct (map site g),
                    b_avg_price = sql_avg (map price g),
                    b_min_price = sql_min (map price g),
                    b_max_price = sql_max (map price g)\<rparr>)
                (partition_by brand rows)))"
    by (simp add: product_brands_def rows_def)
  then have "set (map b_brand (product_brands latest)) = set (map brand rows)"
    by (simp add: set_order_by_desc partition_by_def image_image)
  also have "\<dots> = {brand r | r. r \<in> set latest \<and> brand r \<noteq> None \<and> brand r \<noteq> Some ''''}"
    unfolding rows_def by auto
  finally show ?thesis .
qed

lemma product_brands_distinct: "distinct (map b_brand (product_brands latest))"
proof -
  define rows where "rows = filter (\<lambda>r. brand r \<noteq> None \<and> brand r \<noteq> Some '''') latest"
  have "map b_brand (map (\<lambda>(b, g).
                   \<lparr>b_brand = b,
                    product_count = count_distinct (map product_id g),
                    b_retailer_count = count_distinct (map site g),
                    b_avg_price = sql_avg (map price g),
                    b_min_price = sql_min (map price g),
                    b_max_price = sql_max (map price g)\<rparr>)
                (partition_by brand rows)) = remdups (map brand rows)"
    by (simp add: partition_by_def comp_def)
  then show ?thesis
    unfolding product_brands_def Let_def rows_def [symmetric] distinct_map_order_by_desc
    by simp
qed

lemma product_brands_row:
  assumes "b \<in> set (product_brands latest)"
  shows "b_brand b \<noteq> None" and "b_brand b \<noteq> Some ''''"
    and "product_count b = card {product_id r | r. r \<in> set latest \<and> brand r = b_brand b}"
    and "b_retailer_count b = card {site r | r. r \<in> set latest \<and> brand r = b_brand b}"
proof -
  define rows where "rows = filter (\<lambda>r. brand r \<noteq> None \<and> brand r \<noteq> Some '''') latest"
  from assms obtain k where k: "k \<in> set (map brand rows)"
    and b: "b = \<lparr>b_brand = k,
                 product_count = count_distinct (map product_id (filter (\<lambda>r. brand r = k) rows)),
                 b_retailer_count = count_distinct (map site (filter (\<lambda>r. brand r = k) rows)),
                 b_avg_price = sql_avg (map price (filter (\<lambda>r. brand r = k) rows)),
                 b_min_price = sql_min (map price (filter (\<lambda>r. brand r = k) rows)),
                 b_max_price = sql_max (map price (filter (\<lambda>r. brand r = k) rows))\<rparr>"
    unfolding product_brands_def Let_def rows_def [symmetric] set_order_by_desc partition_by_def
    by auto
  have bk: "b_brand b = k" by (simp add: b)
  from k show n1: "b_brand b \<noteq> None" and n2: "b_brand b \<noteq> Some ''''"
    by (auto simp: bk rows_def)
  have g: "set (filter (\<lambda>r. brand r = k) rows) = {r \<in> set latest. brand r = k}"
    using n1 n2 by (auto simp: rows_def bk)
  have "set (map product_id (filter (\<lambda>r. brand r = k) rows)) =
          {product_id r | r. r \<in> set latest \<and> brand r = k}"
    unfolding set_map g by auto
  then show "product_count b = card {product_id r | r. r \<in> set latest \<and> brand r = b_brand b}"
    by (simp add: b count_distinct_card)
  have "set (map site (filter (\<lambda>r. brand r = k) rows)) =
          {site r | r. r \<in> set latest \<and> brand r = k}"
    unfolding set_map g by auto
  then show "b_retailer_count b = card {site r | r. r \<in> set latest \<and> brand r = b_brand b}"
    by (simp add: b count_distinct_card)
qed

text \<open>
  Claim C10. The brand statistics have no row for a null or empty brand and exactly one
  row for every other brand of the latest prices; its \<open>product_count\<close> is the number of
  distinct \<open>product_id\<close> values and its \<open>retailer_count\<close> the number of distinct sites
  among the rows of that brand.
\<close>

theorem brand_counts:
  "(\<forall>b \<in> set (product_brands latest).
      b_brand b \<noteq> None \<and> b_brand b \<noteq> Some '''' \<and>
      product_count b = card {product_id r | r. r \<in> set latest \<and> brand r = b_brand b} \<and>
      b_retailer_count b = card {site r | r. r \<in> set latest \<and> brand r = b_brand b}) \<and>
   distinct (map b_brand (product_brands latest)) \<and>
   set (map b_brand (product_brands latest)) =
     {brand r | r. r \<in> set latest \<and> brand r \<noteq> None \<and> brand r \<noteq> Some ''''}"
  using product_brands_row [of _ latest] product_brands_distinct [of latest]
    product_brands_keys [of latest]
  by blast

text \<open>
  Brand Acme, with three rows over the products P1, P2 and the sites amazon, walmart,
  has \<open>product_count = 2\<close> and \<open>retailer_count = 2\<close>.
\<close>

theorem brand_counts_witness:
  "product_brands (latest_prices ex_now ex_brands) =
     [\<lparr>b_brand = Some ''Acme'', product_count = 2, b_retailer_count = 2,
       b_avg_price = Some 80, b_min_price = Some 60, b_max_price = Some 100\<rparr>] \<and>
   card {product_id r | r. r \<in> set (latest_prices ex_now ex_brands) \<and> brand r = Some ''Acme''} = 2 \<and>
   card {site r | r. r \<in> set (latest_prices ex_now ex_brands) \<and> brand r = Some ''Acme''} = 2"
proof -
  have e: "product_brands (latest_prices ex_now ex_brands) =
     [\<lparr>b_brand = Some ''Acme'', product_count = 2, b_retailer_count = 2,
       b_avg_price = Some 80, b_min_price = Some 60, b_max_price = Some 100\<rparr>]"
    by (simp add: view_defs ex_brands_def)
  from brand_counts [of "latest_prices ex_now ex_brands"] e show ?thesis
    by simp
qed

end
